theory Spec2Isabelle
  imports Main "HOL-Library.Multiset"
begin

section \<open>Data model of the ledger\<close>

text \<open>
  The Django models of \<^verbatim>\<open>journal_entries/models.py\<close>,
  \<^verbatim>\<open>chart_of_accounts/models.py\<close>, \<^verbatim>\<open>financial_statements/models.py\<close> and
  \<^verbatim>\<open>accounts/models.py\<close>, restricted to the fields that the validation, approval
  and posting methods read or write.

  \<^item> A \<^verbatim>\<open>DecimalField(max_digits=15, decimal_places=2)\<close> holds an exact decimal
    with two places; it is modelled as an \<open>int\<close> number of cents, so that
    \<^verbatim>\<open>Decimal('100.00')\<close> is \<open>10000\<close>. Addition, subtraction and comparison of such
    decimals are exact in Python, as they are on \<open>int\<close>. The digit bound of the column
    is checked when a row is saved.
  \<^item> A \<^verbatim>\<open>CharField\<close> is a \<open>string\<close>; \<^verbatim>\<open>choices\<close> do not restrict what an
    instance can hold, so status and role stay strings.
  \<^item> A \<^verbatim>\<open>ForeignKey\<close> is the primary key of the row it points to, except
    \<^verbatim>\<open>ChartOfAccount.type\<close>, which is carried as the row itself.
  \<^item> Dates and timestamps are numbers (day and clock ordinals).
\<close>

type_synonym decimal = int
type_synonym date = int
type_synonym datetime = nat

datatype error = ValidationError string | DoesNotExist | InvalidOperation | IntegrityError

record FinancialPeriod =
  name :: string
  fiscal_year :: int
  period_number :: int
  start_date :: date
  end_date :: date
  status :: string

record AccountType =
  code :: string
  normal_balance :: string

record ChartOfAccount =
  account_number :: string
  account_name :: string
  type :: AccountType
  normal_balance :: string
  opening_balance :: decimal
  current_balance :: decimal

record User =
  pk :: nat
  username :: string
  role :: string

record TrialBalance =
  fiscal_year :: int
  fiscal_period :: int
  total_debits :: decimal
  total_credits :: decimal

record TrialBalanceLine =
  trial_balance :: nat
  account :: nat
  opening_debit :: decimal
  opening_credit :: decimal
  period_debit :: decimal
  period_credit :: decimal
  closing_debit :: decimal
  closing_credit :: decimal

record JournalEntryLine =
  journal_entry :: nat
  account :: nat
  line_number :: nat
  debit_amount :: decimal
  credit_amount :: decimal

record JournalEntry =
  pk :: nat
  entry_number :: string
  entry_date :: date
  reference_number :: string
  entry_type :: string
  status :: string
  fiscal_year :: int
  fiscal_period :: int
  total_debits :: decimal
  total_credits :: decimal
  created_by :: nat
  approved_by :: "nat option"
  posted_by :: "nat option"
  approved_at :: "datetime option"
  posted_at :: "datetime option"

text \<open>
  The database: the tables the posting engine reads and writes. A row of
  \<^verbatim>\<open>ChartOfAccount\<close> is found by its primary key. The lines table is a list of
  rows, each naming its entry and its account. The entries table is a list of rows,
  each carrying its primary key, since saving an entry scans it for the entry number.
  A \<open>User\<close> is a stored user; integer and text columns are taken to hold whatever
  an instance carries (their limits depend on the database backend).
\<close>

record ledger =
  accounts :: "nat \<rightharpoonup> ChartOfAccount"
  lines :: "JournalEntryLine list"
  entries :: "JournalEntry list"
  periods :: "FinancialPeriod list"

text \<open>
  What a call takes from outside the database: the clock read by
  \<^verbatim>\<open>timezone.now()\<close>, and the entry number that
  \<^verbatim>\<open>_generate_entry_number\<close> computes from today's date and the stored
  entries (the only table it queries). No method below looks at the number it gets,
  so the generator is a parameter.
\<close>

record env =
  now :: datetime
  generate_entry_number :: "JournalEntry list \<Rightarrow> string"

section \<open>Writing a decimal column\<close>

text \<open>
  When a row is saved, Django formats every \<^verbatim>\<open>DecimalField(max_digits=15,
  decimal_places=2)\<close> value with a precision of 15 digits and raises
  \<^verbatim>\<open>decimal.InvalidOperation\<close> when the value needs more, that is, when it lies
  outside -9999999999999.99 .. 9999999999999.99.
\<close>

definition decimal_fits :: "decimal \<Rightarrow> bool" where
  "decimal_fits v \<longleftrightarrow> \<bar>v\<bar> \<le> 999999999999999"

section \<open>Field validators\<close>

text \<open>
  Django's \<^verbatim>\<open>MinValueValidator(limit)\<close> raises when \<^verbatim>\<open>value < limit\<close>,
  \<^verbatim>\<open>MaxValueValidator(limit)\<close> when \<^verbatim>\<open>value > limit\<close>. Field cleaning runs
  every validator of the field and collects the errors.
\<close>

datatype validator = MinValueValidator int | MaxValueValidator int

fun run_validator :: "validator \<Rightarrow> int \<Rightarrow> error + unit" where
  "run_validator (MinValueValidator limit_value) v =
     (if v < limit_value
      then Inl (ValidationError ''Ensure this value is greater than or equal to %(limit_value)s.'')
      else Inr ())"
| "run_validator (MaxValueValidator limit_value) v =
     (if v > limit_value
      then Inl (ValidationError ''Ensure this value is less than or equal to %(limit_value)s.'')
      else Inr ())"

fun run_validators :: "validator list \<Rightarrow> int \<Rightarrow> error list" where
  "run_validators [] v = []"
| "run_validators (c # cs) v =
     (case run_validator c v of
        Inl e \<Rightarrow> e # run_validators cs v
      | Inr _ \<Rightarrow> run_validators cs v)"

text \<open>\<^verbatim>\<open>fiscal_period = models.IntegerField(validators=[MinValueValidator(1), MinValueValidator(12)])\<close>\<close>

definition fiscal_period_validators :: "validator list" where
  "fiscal_period_validators = [MinValueValidator 1, MinValueValidator 12]"

section \<open>Chart of accounts\<close>

definition ChartOfAccount_clean :: "ChartOfAccount \<Rightarrow> error + unit" where
  "ChartOfAccount_clean self =
     (if ChartOfAccount.normal_balance self \<noteq> AccountType.normal_balance (type self)
      then Inl (ValidationError
             (''Account normal balance must match account type normal balance: ''
              @ AccountType.normal_balance (type self)))
      else if opening_balance self < 0 \<and> ChartOfAccount.normal_balance self = ''credit''
      then Inl (ValidationError ''Credit accounts cannot have negative opening balances'')
      else if opening_balance self > 0 \<and> ChartOfAccount.normal_balance self = ''debit''
      then Inl (ValidationError ''Debit accounts cannot have positive opening balances'')
      else Inr ())"

text \<open>
  \<^verbatim>\<open>ChartOfAccount\<close> does not override \<^verbatim>\<open>save\<close>: the row is written when its two
  decimal columns fit. The row saved in the posting loop was loaded from the table in
  the same iteration, so its unique account number is the one already stored.
\<close>

definition ChartOfAccount_save ::
  "(nat \<rightharpoonup> ChartOfAccount) \<Rightarrow> nat \<Rightarrow> ChartOfAccount \<Rightarrow> error + (nat \<rightharpoonup> ChartOfAccount)" where
  "ChartOfAccount_save accts k a =
     (if decimal_fits (opening_balance a) \<and> decimal_fits (current_balance a)
      then Inr (accts(k \<mapsto> a))
      else Inl InvalidOperation)"

definition get_balance_display :: "ChartOfAccount \<Rightarrow> decimal" where
  "get_balance_display self =
     (if ChartOfAccount.normal_balance self = ''debit''
      then current_balance self
      else - current_balance self)"

section \<open>Financial periods\<close>

definition FinancialPeriod_clean :: "FinancialPeriod \<Rightarrow> error + unit" where
  "FinancialPeriod_clean self =
     (if start_date self \<ge> end_date self
      then Inl (ValidationError ''Start date must be before end date'')
      else Inr ())"

section \<open>Trial balance\<close>

definition TrialBalance_get_balance :: "TrialBalance \<Rightarrow> decimal" where
  "TrialBalance_get_balance self =
     TrialBalance.total_debits self - TrialBalance.total_credits self"

definition get_opening_balance :: "TrialBalanceLine \<Rightarrow> decimal" where
  "get_opening_balance self =
     (if opening_debit self > 0 then opening_debit self else - opening_credit self)"

definition get_closing_balance :: "TrialBalanceLine \<Rightarrow> decimal" where
  "get_closing_balance self =
     (if closing_debit self > 0 then closing_debit self else - closing_credit self)"

section \<open>Journal entry lines\<close>

definition JournalEntryLine_clean :: "JournalEntryLine \<Rightarrow> error + unit" where
  "JournalEntryLine_clean self =
     (if debit_amount self < 0 \<or> credit_amount self < 0
      then Inl (ValidationError ''Amounts cannot be negative'')
      else if debit_amount self > 0 \<and> credit_amount self > 0
      then Inl (ValidationError ''Line cannot have both debit and credit amounts'')
      else if debit_amount self = 0 \<and> credit_amount self = 0
      then Inl (ValidationError ''Line must have either debit or credit amount'')
      else Inr ())"

definition get_amount :: "JournalEntryLine \<Rightarrow> decimal" where
  "get_amount self =
     (if debit_amount self > 0 then debit_amount self else - credit_amount self)"

section \<open>Journal entries\<close>

definition JournalEntry_clean :: "JournalEntry \<Rightarrow> error + unit" where
  "JournalEntry_clean self =
     (if total_debits self \<noteq> total_credits self
      then Inl (ValidationError ''Total debits must equal total credits'')
      else if fiscal_period self < 1 \<or> fiscal_period self > 12
      then Inl (ValidationError ''Fiscal period must be between 1 and 12'')
      else Inr ())"

text \<open>
  Model validation of the \<^verbatim>\<open>fiscal_period\<close> column: the field's validators, then
  \<^verbatim>\<open>clean\<close>; every error is collected, and the value is accepted when there is none.
\<close>

definition fiscal_period_errors :: "JournalEntry \<Rightarrow> error list" where
  "fiscal_period_errors self =
     run_validators fiscal_period_validators (fiscal_period self)
     @ (case JournalEntry_clean self of Inl e \<Rightarrow> [e] | Inr _ \<Rightarrow> [])"

definition get_balance :: "JournalEntry \<Rightarrow> decimal" where
  "get_balance self = total_debits self - total_credits self"

text \<open>
  \<^verbatim>\<open>save\<close> fills in a missing entry number on the object and writes the row: an
  update of the row with the object's primary key, or an insert when there is none.
  The write raises \<^verbatim>\<open>decimal.InvalidOperation\<close> when a total does not fit its column,
  and \<^verbatim>\<open>IntegrityError\<close> when another row already has the entry number
  (\<^verbatim>\<open>unique=True\<close>); the object keeps the number it was given, the table is
  unchanged.
\<close>

definition entry_number_taken :: "ledger \<Rightarrow> JournalEntry \<Rightarrow> bool" where
  "entry_number_taken db self =
     list_ex (\<lambda>row. JournalEntry.pk row \<noteq> JournalEntry.pk self
                    \<and> entry_number row = entry_number self)
       (entries db)"

fun write_row :: "JournalEntry \<Rightarrow> JournalEntry list \<Rightarrow> JournalEntry list" where
  "write_row x [] = [x]"
| "write_row x (row # rows) =
     (if JournalEntry.pk row = JournalEntry.pk x then x # rows else row # write_row x rows)"

definition save ::
  "env \<Rightarrow> ledger \<Rightarrow> JournalEntry \<Rightarrow> (error + unit) \<times> JournalEntry \<times> ledger" where
  "save e db self =
     (let self' = (if entry_number self = []
                   then self\<lparr>entry_number := generate_entry_number e (entries db)\<rparr>
                   else self)
      in if \<not> (decimal_fits (total_debits self') \<and> decimal_fits (total_credits self'))
         then (Inl InvalidOperation, self', db)
         else if entry_number_taken db self'
         then (Inl IntegrityError, self', db)
         else (Inr (), self', db\<lparr>entries := write_row self' (entries db)\<rparr>))"

definition can_approve :: "JournalEntry \<Rightarrow> User \<Rightarrow> bool" where
  "can_approve self user =
     (if status self \<noteq> ''pending'' then False
      else if role user \<in> set [''admin'', ''manager''] then True
      else False)"

definition can_post :: "JournalEntry \<Rightarrow> User \<Rightarrow> bool" where
  "can_post self user =
     (if status self \<noteq> ''approved'' then False
      else if role user \<in> set [''admin'', ''accountant''] then True
      else False)"

text \<open>
  The result of a method is the outcome, the entry object after the call and the
  database after the call. A guard that raises leaves both as they were; when the
  final \<^verbatim>\<open>save\<close> raises, the database is as it was, and the object keeps the
  fields assigned before the save.
\<close>

definition approve ::
  "env \<Rightarrow> ledger \<Rightarrow> JournalEntry \<Rightarrow> User \<Rightarrow> (error + unit) \<times> JournalEntry \<times> ledger" where
  "approve e db self user =
     (if \<not> can_approve self user
      then (Inl (ValidationError ''User cannot approve this entry''), self, db)
      else
        (let self' = self\<lparr>status := ''approved'',
                          approved_by := Some (User.pk user),
                          approved_at := Some (now e)\<rparr>
         in save e db self'))"

text \<open>
  \<^verbatim>\<open>self.lines.all()\<close>: the lines of the entry, in the order of the model's
  \<^verbatim>\<open>Meta.ordering\<close> (the line number, within one entry).
\<close>

definition lines_all :: "ledger \<Rightarrow> JournalEntry \<Rightarrow> JournalEntryLine list" where
  "lines_all db self =
     sort_key line_number
       (filter (\<lambda>l. journal_entry l = JournalEntry.pk self) (lines db))"

text \<open>
  The loop of \<^verbatim>\<open>post\<close>. Each iteration loads the line's account from the table,
  adds \<^verbatim>\<open>debit_amount - credit_amount\<close> to its \<^verbatim>\<open>current_balance\<close> and saves the
  row, so a later line on the same account starts from the balance the earlier one
  wrote. A line whose account row is missing raises \<^verbatim>\<open>DoesNotExist\<close>, and a
  balance that does not fit its column makes the row's save raise.
\<close>

fun apply_lines ::
  "JournalEntryLine list \<Rightarrow> (nat \<rightharpoonup> ChartOfAccount) \<Rightarrow> error + (nat \<rightharpoonup> ChartOfAccount)" where
  "apply_lines [] accts = Inr accts"
| "apply_lines (line # rest) accts =
     (case accts (JournalEntryLine.account line) of
        None \<Rightarrow> Inl DoesNotExist
      | Some a \<Rightarrow>
          (case ChartOfAccount_save accts (JournalEntryLine.account line)
                  (a\<lparr>current_balance :=
                      current_balance a + (debit_amount line - credit_amount line)\<rparr>) of
             Inl err \<Rightarrow> Inl err
           | Inr accts' \<Rightarrow> apply_lines rest accts'))"

text \<open>
  \<^verbatim>\<open>post\<close>: the guard, then the loop and the status change inside
  \<^verbatim>\<open>transaction.atomic()\<close>: an exception in the block rolls the database back. The
  loop raises before any field of the entry is assigned; when the entry's own save
  raises, the object already holds the new status, poster and time.
\<close>

definition post ::
  "env \<Rightarrow> ledger \<Rightarrow> JournalEntry \<Rightarrow> User \<Rightarrow> (error + unit) \<times> JournalEntry \<times> ledger" where
  "post e db self user =
     (if \<not> can_post self user
      then (Inl (ValidationError ''User cannot post this entry''), self, db)
      else
        (case apply_lines (lines_all db self) (accounts db) of
           Inl err \<Rightarrow> (Inl err, self, db)
         | Inr accts \<Rightarrow>
             (let self' = self\<lparr>status := ''posted'',
                               posted_by := Some (User.pk user),
                               posted_at := Some (now e)\<rparr>
              in (case save e (db\<lparr>accounts := accts\<rparr>) self' of
                    (Inl err, self'', _) \<Rightarrow> (Inl err, self'', db)
                  | (Inr _, self'', db') \<Rightarrow> (Inr (), self'', db')))))"

text \<open>
  \<^verbatim>\<open>reverse\<close>: the guard, then \<^verbatim>\<open>pass\<close>.
\<close>

definition reverse ::
  "ledger \<Rightarrow> JournalEntry \<Rightarrow> User \<Rightarrow> (error + unit) \<times> JournalEntry \<times> ledger" where
  "reverse db self user =
     (if status self \<noteq> ''posted''
      then (Inl (ValidationError ''Only posted entries can be reversed''), self, db)
      else (Inr (), self, db))"

section \<open>Example data\<close>

text \<open>
  Two accounts, Cash (debit-normal, row 101) and Revenue (credit-normal, row 401), both
  with balance \<open>0\<close>. The lines table holds the two lines of entry 7, Cash debit
  100.00 and Revenue credit 100.00, and the single line of entry 8, Cash debit 100.00.
  An example entry is dated day 15 and carries the stored totals 100.00 and 100.00;
  its row number and status are parameters. The entries table starts empty, so the
  first save of an entry inserts its row. There is one financial period, days 1 to
  31, whose status is a parameter.
\<close>

definition example_cash :: ChartOfAccount where
  "example_cash =
     \<lparr>account_number = ''1000'', account_name = ''Cash'',
      type = \<lparr>code = ''01'', AccountType.normal_balance = ''debit''\<rparr>,
      ChartOfAccount.normal_balance = ''debit'',
      opening_balance = 0, current_balance = 0\<rparr>"

definition example_revenue :: ChartOfAccount where
  "example_revenue =
     \<lparr>account_number = ''4000'', account_name = ''Revenue'',
      type = \<lparr>code = ''04'', AccountType.normal_balance = ''credit''\<rparr>,
      ChartOfAccount.normal_balance = ''credit'',
      opening_balance = 0, current_balance = 0\<rparr>"

definition example_lines :: "JournalEntryLine list" where
  "example_lines =
     [\<lparr>journal_entry = 7, JournalEntryLine.account = 101, line_number = 1,
       debit_amount = 10000, credit_amount = 0\<rparr>,
      \<lparr>journal_entry = 7, JournalEntryLine.account = 401, line_number = 2,
       debit_amount = 0, credit_amount = 10000\<rparr>,
      \<lparr>journal_entry = 8, JournalEntryLine.account = 101, line_number = 1,
       debit_amount = 10000, credit_amount = 0\<rparr>]"

definition example_entry :: "nat \<Rightarrow> string \<Rightarrow> JournalEntry" where
  "example_entry k st =
     \<lparr>JournalEntry.pk = k, entry_number = ''JE2024010001'', entry_date = 15,
      reference_number = [], entry_type = ''regular'', JournalEntry.status = st,
      JournalEntry.fiscal_year = 2024, JournalEntry.fiscal_period = 1,
      JournalEntry.total_debits = 10000, JournalEntry.total_credits = 10000,
      created_by = 1, approved_by = None, posted_by = None,
      approved_at = None, posted_at = None\<rparr>"

definition example_ledger :: "string \<Rightarrow> ledger" where
  "example_ledger period_status =
     \<lparr>accounts = [101 \<mapsto> example_cash, 401 \<mapsto> example_revenue],
      lines = example_lines,
      entries = [],
      periods = [\<lparr>name = ''January'', FinancialPeriod.fiscal_year = 2024, period_number = 1,
                  start_date = 1, end_date = 31,
                  FinancialPeriod.status = period_status\<rparr>]\<rparr>"

definition example_user :: "nat \<Rightarrow> string \<Rightarrow> User" where
  "example_user k r = \<lparr>User.pk = k, username = r, role = r\<rparr>"

definition example_env :: "nat \<Rightarrow> env" where
  "example_env t = \<lparr>now = t, generate_entry_number = (\<lambda>_. ''JE2024010002'')\<rparr>"

text \<open>
  Entry 7, pending, approved by a manager at time 8 and then posted by an accountant
  at time 9.
\<close>

definition example_approval :: "(error + unit) \<times> JournalEntry \<times> ledger" where
  "example_approval =
     approve (example_env 8) (example_ledger ''open'') (example_entry 7 ''pending'')
       (example_user 2 ''manager'')"

definition example_posting :: "(error + unit) \<times> JournalEntry \<times> ledger" where
  "example_posting =
     post (example_env 9) (snd (snd example_approval)) (fst (snd example_approval))
       (example_user 3 ''accountant'')"

text \<open>
  A trial balance line with an opening debit of 100.00, a period debit of 50.00 and
  the closing fields at their default 0.00.
\<close>

definition example_trial_balance_line :: TrialBalanceLine where
  "example_trial_balance_line =
     \<lparr>trial_balance = 1, TrialBalanceLine.account = 101,
      opening_debit = 10000, opening_credit = 0,
      period_debit = 5000, period_credit = 0,
      closing_debit = 0, closing_credit = 0\<rparr>"

section \<open>The posting loop\<close>

text \<open>
  The sum of the signed amounts \<^verbatim>\<open>debit_amount - credit_amount\<close> of the lines of a
  list that point to account \<open>a\<close>, and the accounts table in which every row's balance
  has grown by that sum.
\<close>

abbreviation signed_delta_sum :: "JournalEntryLine list \<Rightarrow> nat \<Rightarrow> decimal" where
  "signed_delta_sum ls a \<equiv>
     (\<Sum>l\<leftarrow>filter (\<lambda>l. JournalEntryLine.account l = a) ls. debit_amount l - credit_amount l)"

abbreviation balances_after :: "JournalEntryLine list \<Rightarrow> (nat \<rightharpoonup> ChartOfAccount) \<Rightarrow> (nat \<rightharpoonup> ChartOfAccount)" where
  "balances_after ls accts \<equiv>
     (\<lambda>a. map_option
        (\<lambda>acct. acct\<lparr>current_balance := current_balance acct + signed_delta_sum ls a\<rparr>)
        (accts a))"

text \<open>
  When the loop succeeds, each row's balance has grown by the signed sum of the lines
  on it. It succeeds when every line points to an account row, every stored opening
  balance fits its column, and every running balance fits its column.
\<close>

lemma balances_after_step:
  assumes "accts (JournalEntryLine.account line) = Some a0"
  shows "balances_after rest (accts(JournalEntryLine.account line \<mapsto>
            a0\<lparr>current_balance := current_balance a0 + (debit_amount line - credit_amount line)\<rparr>))
         = balances_after (line # rest) accts"
proof (rule ext)
  fix a
  show "balances_after rest (accts(JournalEntryLine.account line \<mapsto>
            a0\<lparr>current_balance := current_balance a0 + (debit_amount line - credit_amount line)\<rparr>)) a
         = balances_after (line # rest) accts a"
    using assms by (cases "a = JournalEntryLine.account line") (auto simp: algebra_simps)
qed

lemma apply_lines_Inr:
  "apply_lines ls accts = Inr accts' \<Longrightarrow> accts' = balances_after ls accts"
proof (induction ls arbitrary: accts)
  case Nil
  then show ?case by (simp add: option.map_ident)
next
  case (Cons line rest)
  from Cons.prems obtain a0 where a0: "accts (JournalEntryLine.account line) = Some a0"
    by (cases "accts (JournalEntryLine.account line)") auto
  define accts1 where "accts1 = accts(JournalEntryLine.account line \<mapsto>
      a0\<lparr>current_balance := current_balance a0 + (debit_amount line - credit_amount line)\<rparr>)"
  from Cons.prems a0 have "apply_lines rest accts1 = Inr accts'"
    by (auto simp: ChartOfAccount_save_def accts1_def split: if_splits)
  from Cons.IH[OF this] have "accts' = balances_after rest accts1" .
  moreover have "balances_after rest accts1 = balances_after (line # rest) accts"
    unfolding accts1_def by (rule balances_after_step) (rule a0)
  ultimately show ?case by simp
qed

lemma apply_lines_succeeds:
  assumes "\<forall>l \<in> set ls. JournalEntryLine.account l \<in> dom accts"
    and "\<forall>a acct. accts a = Some acct \<longrightarrow> decimal_fits (opening_balance acct)"
    and "\<forall>n \<le> length ls. \<forall>a acct. accts a = Some acct \<longrightarrow>
           decimal_fits (current_balance acct + signed_delta_sum (take n ls) a)"
  shows "apply_lines ls accts = Inr (balances_after ls accts)"
  using assms
proof (induction ls arbitrary: accts)
  case Nil
  show ?case by (simp add: option.map_ident)
next
  case (Cons line rest)
  from Cons.prems(1) obtain a0 where a0: "accts (JournalEntryLine.account line) = Some a0"
    by auto
  define a1 where "a1 = a0\<lparr>current_balance := current_balance a0 + (debit_amount line - credit_amount line)\<rparr>"
  define accts1 where "accts1 = accts(JournalEntryLine.account line \<mapsto> a1)"
  have f1: "decimal_fits (opening_balance a1)"
    using Cons.prems(2) a0 by (simp add: a1_def)
  have "decimal_fits (current_balance a0 + signed_delta_sum (take 1 (line # rest)) (JournalEntryLine.account line))"
    using Cons.prems(3) a0 by (metis One_nat_def Suc_leI length_greater_0_conv list.distinct(1))
  then have f2: "decimal_fits (current_balance a1)"
    by (simp add: a1_def)
  have sv: "ChartOfAccount_save accts (JournalEntryLine.account line) a1 = Inr accts1"
    using f1 f2 by (simp add: ChartOfAccount_save_def accts1_def)
  have p1: "\<forall>l \<in> set rest. JournalEntryLine.account l \<in> dom accts1"
    using Cons.prems(1) by (auto simp: accts1_def)
  have p2: "\<forall>a acct. accts1 a = Some acct \<longrightarrow> decimal_fits (opening_balance acct)"
    using Cons.prems(2) f1 by (auto simp: accts1_def)
  have p3: "\<forall>n \<le> length rest. \<forall>a acct. accts1 a = Some acct \<longrightarrow>
           decimal_fits (current_balance acct + signed_delta_sum (take n rest) a)"
  proof (intro allI impI)
    fix n a acct
    assume n: "n \<le> length rest" and acct: "accts1 a = Some acct"
    have sn: "Suc n \<le> length (line # rest)" using n by simp
    show "decimal_fits (current_balance acct + signed_delta_sum (take n rest) a)"
    proof (cases "a = JournalEntryLine.account line")
      case True
      with acct have "acct = a1" by (simp add: accts1_def)
      moreover have "decimal_fits (current_balance a0 + signed_delta_sum (take (Suc n) (line # rest)) a)"
        using Cons.prems(3) sn a0 True by blast
      ultimately show ?thesis using True by (simp add: a1_def algebra_simps)
    next
      case False
      with acct have "accts a = Some acct" by (simp add: accts1_def)
      with Cons.prems(3) sn
      have "decimal_fits (current_balance acct + signed_delta_sum (take (Suc n) (line # rest)) a)"
        by blast
      with False show ?thesis by simp
    qed
  qed
  have "apply_lines rest accts1 = Inr (balances_after rest accts1)"
    by (rule Cons.IH[OF p1 p2 p3])
  moreover have "balances_after rest accts1 = balances_after (line # rest) accts"
    unfolding accts1_def a1_def by (rule balances_after_step) (rule a0)
  ultimately show ?case using a0 sv by (simp add: a1_def)
qed

section \<open>Guards, saving and the outcomes of posting\<close>

lemma find_write_row:
  "find (\<lambda>row. JournalEntry.pk row = JournalEntry.pk x) (write_row x rows) = Some x"
  by (induction rows) auto

lemma set_write_row: "set (write_row x rows) \<subseteq> insert x (set rows)"
  by (induction rows) auto

lemma can_post_iff:
  "can_post self user \<longleftrightarrow>
     status self = ''approved'' \<and> (role user = ''admin'' \<or> role user = ''accountant'')"
  by (simp add: can_post_def)

lemma entry_number_taken_cong:
  "entries db' = entries db \<Longrightarrow> JournalEntry.pk x' = JournalEntry.pk x \<Longrightarrow>
   entry_number x' = entry_number x \<Longrightarrow>
   entry_number_taken db' x' = entry_number_taken db x"
  by (simp add: entry_number_taken_def)

lemma entry_number_taken_write_row:
  assumes "\<not> entry_number_taken db x" and "JournalEntry.pk y = JournalEntry.pk x"
    and "entries db' = write_row y (entries db)"
  shows "\<not> entry_number_taken db' x"
  using assms set_write_row[of y "entries db"]
  by (auto simp: entry_number_taken_def list_ex_iff)

lemma save_Inr:
  assumes "save e db x = (Inr (), x', db')"
  shows "x' = (if entry_number x = [] then x\<lparr>entry_number := generate_entry_number e (entries db)\<rparr> else x)"
    and "db' = db\<lparr>entries := write_row x' (entries db)\<rparr>"
    and "decimal_fits (total_debits x)" and "decimal_fits (total_credits x)"
    and "\<not> entry_number_taken db x'"
  using assms by (auto simp: save_def Let_def split: if_splits)

lemma save_Inr_facts:
  assumes "save e db x = (Inr (), x', db')"
  shows "status x' = status x" and "posted_by x' = posted_by x" and "posted_at x' = posted_at x"
    and "approved_by x' = approved_by x" and "approved_at x' = approved_at x"
    and "JournalEntry.pk x' = JournalEntry.pk x"
    and "accounts db' = accounts db" and "lines db' = lines db" and "periods db' = periods db"
    and "find (\<lambda>row. JournalEntry.pk row = JournalEntry.pk x) (entries db') = Some x'"
proof -
  note s = save_Inr[OF assms]
  show "status x' = status x" "posted_by x' = posted_by x" "posted_at x' = posted_at x"
    "approved_by x' = approved_by x" "approved_at x' = approved_at x"
    and pk: "JournalEntry.pk x' = JournalEntry.pk x"
    using s(1) by (simp_all split: if_splits)
  show "accounts db' = accounts db" "lines db' = lines db" "periods db' = periods db"
    using s(2) by simp_all
  show "find (\<lambda>row. JournalEntry.pk row = JournalEntry.pk x) (entries db') = Some x'"
    using s(2) find_write_row[of x' "entries db"] by (simp add: pk)
qed

lemma save_succeeds:
  assumes "decimal_fits (total_debits x)" and "decimal_fits (total_credits x)"
    and "\<not> entry_number_taken db
           (if entry_number x = [] then x\<lparr>entry_number := generate_entry_number e (entries db)\<rparr> else x)"
  shows "fst (save e db x) = Inr ()"
  using assms by (simp add: save_def Let_def)

lemma save_periods:
  "save e (db\<lparr>periods := ps\<rparr>) x
     = (case save e db x of (r, s, d) \<Rightarrow> (r, s, d\<lparr>periods := ps\<rparr>))"
  by (simp add: save_def Let_def entry_number_taken_def)

lemma lines_all_periods [simp]: "lines_all (db\<lparr>periods := ps\<rparr>) self = lines_all db self"
  by (simp add: lines_all_def)

lemma post_rejected:
  "\<not> can_post self user \<Longrightarrow>
   post e db self user = (Inl (ValidationError ''User cannot post this entry''), self, db)"
  by (simp add: post_def)

lemma post_Inr:
  assumes "post e db self user = (Inr (), self', db')"
  shows "can_post self user"
    and "apply_lines (lines_all db self) (accounts db) = Inr (balances_after (lines_all db self) (accounts db))"
    and "save e (db\<lparr>accounts := balances_after (lines_all db self) (accounts db)\<rparr>)
           (self\<lparr>status := ''posted'', posted_by := Some (User.pk user), posted_at := Some (now e)\<rparr>)
         = (Inr (), self', db')"
proof -
  show cp: "can_post self user"
    using assms by (auto simp: post_def split: if_splits)
  obtain accts where a: "apply_lines (lines_all db self) (accounts db) = Inr accts"
    using assms cp by (cases "apply_lines (lines_all db self) (accounts db)") (auto simp: post_def)
  from apply_lines_Inr[OF a] have eq: "accts = balances_after (lines_all db self) (accounts db)" .
  show "apply_lines (lines_all db self) (accounts db) = Inr (balances_after (lines_all db self) (accounts db))"
    using a eq by simp
  show "save e (db\<lparr>accounts := balances_after (lines_all db self) (accounts db)\<rparr>)
           (self\<lparr>status := ''posted'', posted_by := Some (User.pk user), posted_at := Some (now e)\<rparr>)
         = (Inr (), self', db')"
    using assms cp a unfolding eq[symmetric]
    by (auto simp: post_def Let_def split: prod.splits sum.splits)
qed

lemma post_Inr_posted:
  assumes "post e db self user = (Inr (), self', db')"
  shows "status self' = ''posted''"
  using save_Inr_facts(1)[OF post_Inr(3)[OF assms]] by simp

lemma post_succeeds:
  assumes "can_post self user"
    and "\<forall>l \<in> set (lines_all db self). JournalEntryLine.account l \<in> dom (accounts db)"
    and "\<forall>a acct. accounts db a = Some acct \<longrightarrow> decimal_fits (opening_balance acct)"
    and "\<forall>n \<le> length (lines_all db self). \<forall>a acct. accounts db a = Some acct \<longrightarrow>
           decimal_fits (current_balance acct + signed_delta_sum (take n (lines_all db self)) a)"
    and "decimal_fits (total_debits self)" and "decimal_fits (total_credits self)"
    and "\<not> entry_number_taken db
           (if entry_number self = []
            then self\<lparr>entry_number := generate_entry_number e (entries db)\<rparr> else self)"
  shows "fst (post e db self user) = Inr ()"
proof -
  define db1 where "db1 = db\<lparr>accounts := balances_after (lines_all db self) (accounts db)\<rparr>"
  define self1 where "self1 = self\<lparr>status := ''posted'', posted_by := Some (User.pk user),
                                   posted_at := Some (now e)\<rparr>"
  have al: "apply_lines (lines_all db self) (accounts db)
              = Inr (balances_after (lines_all db self) (accounts db))"
    by (rule apply_lines_succeeds[OF assms(2,3,4)])
  have "entry_number_taken db1
          (if entry_number self1 = []
           then self1\<lparr>entry_number := generate_entry_number e (entries db1)\<rparr> else self1)
        = entry_number_taken db
          (if entry_number self = []
            then self\<lparr>entry_number := generate_entry_number e (entries db)\<rparr> else self)"
    by (rule entry_number_taken_cong) (simp_all add: db1_def self1_def)
  with assms(7) have nt: "\<not> entry_number_taken db1
          (if entry_number self1 = []
           then self1\<lparr>entry_number := generate_entry_number e (entries db1)\<rparr> else self1)"
    by simp
  have "fst (save e db1 self1) = Inr ()"
    by (rule save_succeeds) (use assms(5,6) nt in \<open>simp_all add: self1_def\<close>)
  then obtain s d where sv: "save e db1 self1 = (Inr (), s, d)"
    by (cases "save e db1 self1") auto
  show ?thesis
    using assms(1) al sv by (simp add: post_def Let_def db1_def self1_def)
qed

section \<open>The example, evaluated\<close>

lemmas example_defs = example_cash_def example_revenue_def example_lines_def example_entry_def
  example_ledger_def example_user_def example_env_def

lemma example_lines_all:
  "lines_all (example_ledger ps) (example_entry 7 st) =
     [\<lparr>journal_entry = 7, JournalEntryLine.account = 101, line_number = 1,
       debit_amount = 10000, credit_amount = 0\<rparr>,
      \<lparr>journal_entry = 7, JournalEntryLine.account = 401, line_number = 2,
       debit_amount = 0, credit_amount = 10000\<rparr>]"
  by (simp add: lines_all_def example_defs)

lemma example_accounts:
  "accounts (example_ledger ps) a = Some acct \<longleftrightarrow>
     (a = 101 \<and> acct = example_cash) \<or> (a = 401 \<and> acct = example_revenue)"
  by (auto simp: example_ledger_def)

lemma le_two: "n \<le> Suc (Suc 0) \<longleftrightarrow> n = 0 \<or> n = Suc 0 \<or> n = Suc (Suc 0)"
  by auto

lemma example_post_hyps:
  "(\<forall>l \<in> set (lines_all (example_ledger ps) (example_entry 7 st)).
       JournalEntryLine.account l \<in> dom (accounts (example_ledger ps)))"
  "(\<forall>a acct. accounts (example_ledger ps) a = Some acct \<longrightarrow> decimal_fits (opening_balance acct))"
  "(\<forall>n \<le> length (lines_all (example_ledger ps) (example_entry 7 st)).
      \<forall>a acct. accounts (example_ledger ps) a = Some acct \<longrightarrow>
        decimal_fits (current_balance acct
           + signed_delta_sum (take n (lines_all (example_ledger ps) (example_entry 7 st))) a))"
  "decimal_fits (total_debits (example_entry 7 st))"
  "decimal_fits (total_credits (example_entry 7 st))"
  "\<not> entry_number_taken (example_ledger ps)
        (if entry_number (example_entry 7 st) = []
         then (example_entry 7 st)\<lparr>entry_number :=
                 generate_entry_number e (entries (example_ledger ps))\<rparr>
         else example_entry 7 st)"
proof -
  show "(\<forall>l \<in> set (lines_all (example_ledger ps) (example_entry 7 st)).
       JournalEntryLine.account l \<in> dom (accounts (example_ledger ps)))"
    unfolding example_lines_all by (simp add: example_ledger_def)
  show "(\<forall>a acct. accounts (example_ledger ps) a = Some acct \<longrightarrow> decimal_fits (opening_balance acct))"
    unfolding example_accounts by (auto simp: example_cash_def example_revenue_def decimal_fits_def)
  show "(\<forall>n \<le> length (lines_all (example_ledger ps) (example_entry 7 st)).
      \<forall>a acct. accounts (example_ledger ps) a = Some acct \<longrightarrow>
        decimal_fits (current_balance acct
           + signed_delta_sum (take n (lines_all (example_ledger ps) (example_entry 7 st))) a))"
    unfolding example_lines_all example_accounts
    by (auto simp: le_two example_cash_def example_revenue_def decimal_fits_def)
  show "decimal_fits (total_debits (example_entry 7 st))"
    "decimal_fits (total_credits (example_entry 7 st))"
    by (simp_all add: example_entry_def decimal_fits_def)
  show "\<not> entry_number_taken (example_ledger ps)
        (if entry_number (example_entry 7 st) = []
         then (example_entry 7 st)\<lparr>entry_number :=
                 generate_entry_number e (entries (example_ledger ps))\<rparr>
         else example_entry 7 st)"
    by (simp add: entry_number_taken_def example_ledger_def)
qed

lemma example_approval_eq:
  "example_approval =
     (Inr (),
      (example_entry 7 ''approved'')\<lparr>approved_by := Some 2, approved_at := Some 8\<rparr>,
      (example_ledger ''open'')
        \<lparr>entries := [(example_entry 7 ''approved'')
                                 \<lparr>approved_by := Some 2, approved_at := Some 8\<rparr>]\<rparr>)"
  by (simp add: example_approval_def approve_def can_approve_def save_def Let_def
        entry_number_taken_def decimal_fits_def
        example_entry_def example_ledger_def example_user_def example_env_def)

lemma example_posting_eq:
  "example_posting =
     (Inr (),
      (example_entry 7 ''posted'')
        \<lparr>approved_by := Some 2, approved_at := Some 8, posted_by := Some 3, posted_at := Some 9\<rparr>,
      \<lparr>accounts = [101 \<mapsto> example_cash\<lparr>current_balance := 10000\<rparr>,
                   401 \<mapsto> example_revenue\<lparr>current_balance := - 10000\<rparr>],
       lines = example_lines,
       entries = [(example_entry 7 ''posted'')
          \<lparr>approved_by := Some 2, approved_at := Some 8, posted_by := Some 3, posted_at := Some 9\<rparr>],
       periods = periods (example_ledger ''open'')\<rparr>)"
proof -
  have l: "lines_all ((example_ledger ''open'')
        \<lparr>entries := [(example_entry 7 ''approved'')
                                 \<lparr>approved_by := Some 2, approved_at := Some 8\<rparr>]\<rparr>)
        ((example_entry 7 ''approved'')\<lparr>approved_by := Some 2, approved_at := Some 8\<rparr>)
     = [\<lparr>journal_entry = 7, JournalEntryLine.account = 101, line_number = 1,
       debit_amount = 10000, credit_amount = 0\<rparr>,
      \<lparr>journal_entry = 7, JournalEntryLine.account = 401, line_number = 2,
       debit_amount = 0, credit_amount = 10000\<rparr>]"
    by (simp add: lines_all_def example_ledger_def example_lines_def example_entry_def)
  show ?thesis
    unfolding example_posting_def example_approval_eq snd_conv fst_conv post_def l
    by (simp add: can_post_def save_def Let_def ChartOfAccount_save_def decimal_fits_def
        entry_number_taken_def example_cash_def example_revenue_def
        example_entry_def example_ledger_def example_user_def example_env_def fun_upd_twist)
qed

section \<open>The failure paths at the example\<close>

text \<open>
  With Cash at 9999999999999.99 the first line's 100.00 debit does not fit the column:
  the account's save raises, the entry stays \<^verbatim>\<open>approved\<close> and the database is as
  it was. Saving entry 8 under the number that the stored entry 7 already has raises
  \<^verbatim>\<open>IntegrityError\<close> and writes nothing.
\<close>

lemma post_overflow_rolls_back:
  "post (example_env 9)
     ((example_ledger ''open'')
        \<lparr>accounts := [101 \<mapsto> example_cash\<lparr>current_balance := 999999999999999\<rparr>,
                      401 \<mapsto> example_revenue]\<rparr>)
     (example_entry 7 ''approved'') (example_user 3 ''accountant'')
   = (Inl InvalidOperation, example_entry 7 ''approved'',
      (example_ledger ''open'')
        \<lparr>accounts := [101 \<mapsto> example_cash\<lparr>current_balance := 999999999999999\<rparr>,
                      401 \<mapsto> example_revenue]\<rparr>)"
proof -
  have l: "lines_all ((example_ledger ''open'')
        \<lparr>accounts := [101 \<mapsto> example_cash\<lparr>current_balance := 999999999999999\<rparr>,
                      401 \<mapsto> example_revenue]\<rparr>) (example_entry 7 ''approved'')
      = lines_all (example_ledger ''open'') (example_entry 7 ''approved'')"
    by (simp add: lines_all_def)
  show ?thesis
    unfolding post_def l example_lines_all
    by (simp add: can_post_def ChartOfAccount_save_def decimal_fits_def
          example_cash_def example_entry_def example_user_def)
qed

lemma save_duplicate_entry_number:
  "save (example_env 5) ((example_ledger ''open'')\<lparr>entries := [example_entry 7 ''posted'']\<rparr>)
     (example_entry 8 ''draft'')
   = (Inl IntegrityError, example_entry 8 ''draft'',
      (example_ledger ''open'')\<lparr>entries := [example_entry 7 ''posted'']\<rparr>)"
  by (simp add: save_def Let_def entry_number_taken_def decimal_fits_def example_entry_def)

section \<open>Posting\<close>

text \<open>
  Claim C1. Let the entry's status be \<^verbatim>\<open>approved\<close> and the user's role
  \<^verbatim>\<open>accountant\<close> or \<^verbatim>\<open>admin\<close>. Whenever \<^verbatim>\<open>post\<close> succeeds, every account's
  \<^verbatim>\<open>current_balance\<close> afterwards is its balance before plus the sum of
  \<^verbatim>\<open>debit_amount - credit_amount\<close> over the entry's lines on that account, the
  entry's status is \<^verbatim>\<open>posted\<close>, \<^verbatim>\<open>posted_by\<close> and \<^verbatim>\<open>posted_at\<close> hold the user
  and the clock's time, and the entry's row in the table is the posted entry. And
  \<^verbatim>\<open>post\<close> does succeed when the database can take the writes: every line points to
  an account row, the stored opening balances, every running balance of the loop and
  the entry's totals fit their columns, and no other row has the entry's number.
\<close>

theorem post_applies_lines:
  assumes "status self = ''approved''"
    and "role user = ''accountant'' \<or> role user = ''admin''"
  shows "(post e db self user = (Inr (), self', db') \<longrightarrow>
            status self' = ''posted''
          \<and> posted_by self' = Some (User.pk user)
          \<and> posted_at self' = Some (now e)
          \<and> find (\<lambda>row. JournalEntry.pk row = JournalEntry.pk self) (entries db') = Some self'
          \<and> accounts db' =
              (\<lambda>a. map_option
                 (\<lambda>acct. acct\<lparr>current_balance :=
                    current_balance acct + signed_delta_sum (lines_all db self) a\<rparr>)
                 (accounts db a)))
       \<and> ((\<forall>l \<in> set (lines_all db self). JournalEntryLine.account l \<in> dom (accounts db))
          \<and> (\<forall>a acct. accounts db a = Some acct \<longrightarrow> decimal_fits (opening_balance acct))
          \<and> (\<forall>n \<le> length (lines_all db self). \<forall>a acct. accounts db a = Some acct \<longrightarrow>
                decimal_fits (current_balance acct
                              + signed_delta_sum (take n (lines_all db self)) a))
          \<and> decimal_fits (total_debits self) \<and> decimal_fits (total_credits self)
          \<and> \<not> entry_number_taken db
                (if entry_number self = []
                 then self\<lparr>entry_number := generate_entry_number e (entries db)\<rparr> else self)
          \<longrightarrow> fst (post e db self user) = Inr ())"
proof (intro conjI impI)
  assume p: "post e db self user = (Inr (), self', db')"
  note sv = post_Inr(3)[OF p]
  note f = save_Inr_facts[OF sv]
  show "status self' = ''posted''" using f(1) by simp
  show "posted_by self' = Some (User.pk user)" using f(2) by simp
  show "posted_at self' = Some (now e)" using f(3) by simp
  show "find (\<lambda>row. JournalEntry.pk row = JournalEntry.pk self) (entries db') = Some self'"
    using f(10) by simp
  show "accounts db' =
              (\<lambda>a. map_option
                 (\<lambda>acct. acct\<lparr>current_balance :=
                    current_balance acct + signed_delta_sum (lines_all db self) a\<rparr>)
                 (accounts db a))"
    using f(7) by simp
next
  assume h: "(\<forall>l \<in> set (lines_all db self). JournalEntryLine.account l \<in> dom (accounts db))
          \<and> (\<forall>a acct. accounts db a = Some acct \<longrightarrow> decimal_fits (opening_balance acct))
          \<and> (\<forall>n \<le> length (lines_all db self). \<forall>a acct. accounts db a = Some acct \<longrightarrow>
                decimal_fits (current_balance acct
                              + signed_delta_sum (take n (lines_all db self)) a))
          \<and> decimal_fits (total_debits self) \<and> decimal_fits (total_credits self)
          \<and> \<not> entry_number_taken db
                (if entry_number self = []
                 then self\<lparr>entry_number := generate_entry_number e (entries db)\<rparr> else self)"
  have cp: "can_post self user" using assms by (auto simp: can_post_iff)
  show "fst (post e db self user) = Inr ()"
    by (rule post_succeeds[OF cp]) (use h in blast)+
qed

text \<open>
  C1 at the example: the approved Cash/Revenue entry, posted by an accountant at
  time 7.
\<close>

theorem post_applies_lines_witness:
  "status (example_entry 7 ''approved'') = ''approved''
   \<and> role (example_user 3 ''accountant'') = ''accountant''
   \<and> fst (post (example_env 7) (example_ledger ''open'') (example_entry 7 ''approved'')
             (example_user 3 ''accountant'')) = Inr ()
   \<and> status (fst (snd (post (example_env 7) (example_ledger ''open'')
        (example_entry 7 ''approved'') (example_user 3 ''accountant'')))) = ''posted''
   \<and> posted_by (fst (snd (post (example_env 7) (example_ledger ''open'')
        (example_entry 7 ''approved'') (example_user 3 ''accountant'')))) = Some 3
   \<and> posted_at (fst (snd (post (example_env 7) (example_ledger ''open'')
        (example_entry 7 ''approved'') (example_user 3 ''accountant'')))) = Some 7
   \<and> accounts (snd (snd (post (example_env 7) (example_ledger ''open'')
        (example_entry 7 ''approved'') (example_user 3 ''accountant'')))) 101
       = Some (example_cash\<lparr>current_balance := 10000\<rparr>)
   \<and> accounts (snd (snd (post (example_env 7) (example_ledger ''open'')
        (example_entry 7 ''approved'') (example_user 3 ''accountant'')))) 401
       = Some (example_revenue\<lparr>current_balance := - 10000\<rparr>)
   \<and> map status (entries (snd (snd (post (example_env 7) (example_ledger ''open'')
        (example_entry 7 ''approved'') (example_user 3 ''accountant''))))) = [''posted'']"
proof -
  define P where "P = post (example_env 7) (example_ledger ''open'')
        (example_entry 7 ''approved'') (example_user 3 ''accountant'')"
  have h1: "status (example_entry 7 ''approved'') = ''approved''"
    by (simp add: example_entry_def)
  have h2: "role (example_user 3 ''accountant'') = ''accountant''
            \<or> role (example_user 3 ''accountant'') = ''admin''"
    by (simp add: example_user_def)
  note T = post_applies_lines[OF h1 h2, of "example_env 7" "example_ledger ''open''"
      "fst (snd P)" "snd (snd P)"]
  have ok: "fst P = Inr ()"
    unfolding P_def using T example_post_hyps
    by blast
  then have eq: "post (example_env 7) (example_ledger ''open'')
        (example_entry 7 ''approved'') (example_user 3 ''accountant'')
       = (Inr (), fst (snd P), snd (snd P))"
    unfolding P_def by (simp add: prod_eq_iff)
  from T eq have r: "status (fst (snd P)) = ''posted''"
    "posted_by (fst (snd P)) = Some (User.pk (example_user 3 ''accountant''))"
    "posted_at (fst (snd P)) = Some (now (example_env 7))"
    "find (\<lambda>row. JournalEntry.pk row = JournalEntry.pk (example_entry 7 ''approved''))
        (entries (snd (snd P))) = Some (fst (snd P))"
    "accounts (snd (snd P)) =
              (\<lambda>a. map_option
                 (\<lambda>acct. acct\<lparr>current_balance := current_balance acct
                    + signed_delta_sum (lines_all (example_ledger ''open'')
                         (example_entry 7 ''approved'')) a\<rparr>)
                 (accounts (example_ledger ''open'') a))"
    by blast+
  have a1: "accounts (snd (snd P)) 101 = Some (example_cash\<lparr>current_balance := 10000\<rparr>)"
    unfolding r(5) example_lines_all by (simp add: example_ledger_def example_cash_def)
  have a2: "accounts (snd (snd P)) 401 = Some (example_revenue\<lparr>current_balance := - 10000\<rparr>)"
    unfolding r(5) example_lines_all by (simp add: example_ledger_def example_revenue_def)
  have "snd (snd P) = (example_ledger ''open'')
          \<lparr>accounts := balances_after (lines_all (example_ledger ''open'') (example_entry 7 ''approved''))
                         (accounts (example_ledger ''open'')),
           entries := write_row (fst (snd P))
             (entries ((example_ledger ''open'')
                \<lparr>accounts := balances_after (lines_all (example_ledger ''open'')
                    (example_entry 7 ''approved'')) (accounts (example_ledger ''open''))\<rparr>))\<rparr>"
    using save_Inr(2)[OF post_Inr(3)[OF eq]] by simp
  then have en: "entries (snd (snd P)) = [fst (snd P)]"
    by (simp add: example_ledger_def)
  have m: "map status (entries (snd (snd P))) = [''posted'']"
    using en r(1) by simp
  show ?thesis
    using h1 ok r(1-3) a1 a2 m unfolding P_def
    by (simp add: example_user_def example_env_def)
qed

section \<open>Validation of an entry\<close>

text \<open>
  Claim C2, as stated, fails. \<^verbatim>\<open>clean\<close> compares the stored columns
  \<^verbatim>\<open>total_debits\<close> and \<^verbatim>\<open>total_credits\<close> and never reads the lines: entry 8,
  with both totals at their default 0.00 and the single line Cash debit 100.00, passes
  \<^verbatim>\<open>clean\<close> although its debit lines sum to 100.00 and its credit lines to 0.00.
  Nor does \<^verbatim>\<open>save\<close> validate: an entry whose stored totals differ is written with
  status \<^verbatim>\<open>pending\<close>.
\<close>

theorem clean_accepts_unbalanced_lines_counterexample:
  "JournalEntry_clean ((example_entry 8 ''draft'')\<lparr>total_debits := 0, total_credits := 0\<rparr>) = Inr ()
   \<and> (\<Sum>l\<leftarrow>lines_all (example_ledger ''open'')
           ((example_entry 8 ''draft'')\<lparr>total_debits := 0, total_credits := 0\<rparr>). debit_amount l) = 10000
   \<and> (\<Sum>l\<leftarrow>lines_all (example_ledger ''open'')
           ((example_entry 8 ''draft'')\<lparr>total_debits := 0, total_credits := 0\<rparr>). credit_amount l) = 0
   \<and> total_debits ((example_entry 8 ''pending'')\<lparr>total_credits := 0\<rparr>)
       \<noteq> total_credits ((example_entry 8 ''pending'')\<lparr>total_credits := 0\<rparr>)
   \<and> fst (save (example_env 5) (example_ledger ''open'')
             ((example_entry 8 ''pending'')\<lparr>total_credits := 0\<rparr>)) = Inr ()
   \<and> entries (snd (snd (save (example_env 5) (example_ledger ''open'')
                         ((example_entry 8 ''pending'')\<lparr>total_credits := 0\<rparr>))))
       = [(example_entry 8 ''pending'')\<lparr>total_credits := 0\<rparr>]"
  by (simp add: JournalEntry_clean_def lines_all_def save_def Let_def
        entry_number_taken_def decimal_fits_def
        example_entry_def example_ledger_def example_lines_def)

text \<open>
  Claim C2, amended. \<^verbatim>\<open>clean\<close> fails with "Total debits must equal total
  credits" whenever the stored \<^verbatim>\<open>total_debits\<close> differs from the stored
  \<^verbatim>\<open>total_credits\<close>; an entry that passes \<^verbatim>\<open>clean\<close> has equal stored totals, to
  the cent, and \<^verbatim>\<open>get_balance\<close> zero.
\<close>

theorem clean_compares_stored_totals:
  "(total_debits self \<noteq> total_credits self \<longrightarrow>
      JournalEntry_clean self = Inl (ValidationError ''Total debits must equal total credits''))
   \<and> (JournalEntry_clean self = Inr () \<longrightarrow>
        total_debits self = total_credits self \<and> get_balance self = 0)"
  by (simp add: JournalEntry_clean_def get_balance_def)

text \<open>
  The amended C2 at entry 7 with stored totals 100.00 and 99.99 (rejected) and with
  100.00 and 100.00 (accepted).
\<close>

theorem clean_compares_stored_totals_witness:
  "total_debits ((example_entry 7 ''draft'')\<lparr>total_credits := 9999\<rparr>)
     \<noteq> total_credits ((example_entry 7 ''draft'')\<lparr>total_credits := 9999\<rparr>)
   \<and> JournalEntry_clean ((example_entry 7 ''draft'')\<lparr>total_credits := 9999\<rparr>)
       = Inl (ValidationError ''Total debits must equal total credits'')
   \<and> JournalEntry_clean (example_entry 7 ''draft'') = Inr ()
   \<and> total_debits (example_entry 7 ''draft'') = total_credits (example_entry 7 ''draft'')
   \<and> get_balance (example_entry 7 ''draft'') = 0"
proof -
  have 1: "total_debits ((example_entry 7 ''draft'')\<lparr>total_credits := 9999\<rparr>)
     \<noteq> total_credits ((example_entry 7 ''draft'')\<lparr>total_credits := 9999\<rparr>)"
    by (simp add: example_entry_def)
  have 2: "JournalEntry_clean (example_entry 7 ''draft'') = Inr ()"
    by (simp add: JournalEntry_clean_def example_entry_def)
  show ?thesis
    using 1 2 clean_compares_stored_totals[of "(example_entry 7 ''draft'')\<lparr>total_credits := 9999\<rparr>"]
      clean_compares_stored_totals[of "example_entry 7 ''draft''"]
    by simp
qed

section \<open>Posting and the financial period\<close>

text \<open>
  Claim C3, as stated, fails. The only period of the example ledger covers days 1 to
  31 and is \<^verbatim>\<open>closed\<close>; the entry is dated day 15; \<^verbatim>\<open>post\<close> by an accountant
  succeeds, marks the entry \<^verbatim>\<open>posted\<close> and moves Cash from 0.00 to 100.00.
\<close>

theorem post_in_closed_period_counterexample:
  "map FinancialPeriod.status (periods (example_ledger ''closed'')) = [''closed'']
   \<and> map start_date (periods (example_ledger ''closed'')) = [1]
   \<and> map end_date (periods (example_ledger ''closed'')) = [31]
   \<and> entry_date (example_entry 7 ''approved'') = 15
   \<and> fst (post (example_env 9) (example_ledger ''closed'') (example_entry 7 ''approved'')
            (example_user 3 ''accountant'')) = Inr ()
   \<and> status (fst (snd (post (example_env 9) (example_ledger ''closed'')
            (example_entry 7 ''approved'') (example_user 3 ''accountant'')))) = ''posted''
   \<and> map_option current_balance (accounts (example_ledger ''closed'') 101) = Some 0
   \<and> map_option current_balance
        (accounts (snd (snd (post (example_env 9) (example_ledger ''closed'')
            (example_entry 7 ''approved'') (example_user 3 ''accountant'')))) 101) = Some 10000"
proof -
  have p: "post (example_env 9) (example_ledger ''closed'') (example_entry 7 ''approved'')
            (example_user 3 ''accountant'')
     = (Inr (),
        (example_entry 7 ''posted'')\<lparr>posted_by := Some 3, posted_at := Some 9\<rparr>,
        (example_ledger ''closed'')
          \<lparr>accounts := [101 \<mapsto> example_cash\<lparr>current_balance := 10000\<rparr>,
                        401 \<mapsto> example_revenue\<lparr>current_balance := - 10000\<rparr>],
           entries := [(example_entry 7 ''posted'')
                                 \<lparr>posted_by := Some 3, posted_at := Some 9\<rparr>]\<rparr>)"
    unfolding post_def example_lines_all
    by (simp add: can_post_def save_def Let_def ChartOfAccount_save_def decimal_fits_def
        entry_number_taken_def example_cash_def example_revenue_def
        example_entry_def example_ledger_def example_user_def example_env_def fun_upd_twist)
  show ?thesis
    unfolding p by (simp add: example_entry_def example_ledger_def example_cash_def)
qed

text \<open>
  Claim C3, amended. \<^verbatim>\<open>post\<close> fails, leaving the entry and the database as they
  were, unless the entry's status is \<^verbatim>\<open>approved\<close> and the user's role is
  \<^verbatim>\<open>admin\<close> or \<^verbatim>\<open>accountant\<close>; it never reads the financial periods: with any
  other periods table the outcome, the entry and every table it writes are the same.
\<close>

theorem post_guard_ignores_period:
  "(\<not> (status self = ''approved'' \<and> (role user = ''admin'' \<or> role user = ''accountant'')) \<longrightarrow>
      post e db self user = (Inl (ValidationError ''User cannot post this entry''), self, db))
   \<and> post e (db\<lparr>periods := ps\<rparr>) self user
       = (case post e db self user of (r, s, d) \<Rightarrow> (r, s, d\<lparr>periods := ps\<rparr>))"
proof (intro conjI impI)
  assume "\<not> (status self = ''approved'' \<and> (role user = ''admin'' \<or> role user = ''accountant''))"
  then have "\<not> can_post self user" by (simp add: can_post_iff)
  then show "post e db self user = (Inl (ValidationError ''User cannot post this entry''), self, db)"
    by (rule post_rejected)
next
  have sw: "\<And>accts. db\<lparr>periods := ps, accounts := accts\<rparr> = db\<lparr>accounts := accts, periods := ps\<rparr>"
    by simp
  show "post e (db\<lparr>periods := ps\<rparr>) self user
       = (case post e db self user of (r, s, d) \<Rightarrow> (r, s, d\<lparr>periods := ps\<rparr>))"
    by (simp add: post_def Let_def sw save_periods split: sum.splits prod.splits)
qed

text \<open>
  The amended C3 at the example: a viewer is refused and nothing changes; with the
  period closed or open, posting by an accountant has the same outcome and writes the
  same balances.
\<close>

theorem post_guard_ignores_period_witness:
  "post (example_env 9) (example_ledger ''open'') (example_entry 7 ''approved'')
        (example_user 4 ''viewer'')
     = (Inl (ValidationError ''User cannot post this entry''),
        example_entry 7 ''approved'', example_ledger ''open'')
   \<and> fst (post (example_env 9) (example_ledger ''closed'') (example_entry 7 ''approved'')
            (example_user 3 ''accountant''))
     = fst (post (example_env 9) (example_ledger ''open'') (example_entry 7 ''approved'')
            (example_user 3 ''accountant''))
   \<and> accounts (snd (snd (post (example_env 9) (example_ledger ''closed'')
            (example_entry 7 ''approved'') (example_user 3 ''accountant''))))
     = accounts (snd (snd (post (example_env 9) (example_ledger ''open'')
            (example_entry 7 ''approved'') (example_user 3 ''accountant''))))"
proof -
  have 1: "\<not> (status (example_entry 7 ''approved'') = ''approved''
      \<and> (role (example_user 4 ''viewer'') = ''admin''
          \<or> role (example_user 4 ''viewer'') = ''accountant''))"
    by (simp add: example_user_def)
  have 2: "example_ledger ''closed''
      = (example_ledger ''open'')\<lparr>periods := periods (example_ledger ''closed'')\<rparr>"
    by (simp add: example_ledger_def)
  have 3: "post (example_env 9) (example_ledger ''closed'') (example_entry 7 ''approved'')
            (example_user 3 ''accountant'')
     = (case post (example_env 9) (example_ledger ''open'') (example_entry 7 ''approved'')
            (example_user 3 ''accountant'') of
          (r, s, d) \<Rightarrow> (r, s, d\<lparr>periods := periods (example_ledger ''closed'')\<rparr>))"
    using post_guard_ignores_period[of "example_entry 7 ''approved''"
        "example_user 3 ''accountant''" "example_env 9" "example_ledger ''open''"
        "periods (example_ledger ''closed'')"] 2
    by simp
  show ?thesis
    using 1 post_guard_ignores_period[of "example_entry 7 ''approved''"
        "example_user 4 ''viewer''" "example_env 9" "example_ledger ''open''"]
    unfolding 3
    by (simp add: split_beta)
qed

section \<open>Posting an entry that is not approved\<close>

text \<open>
  Claim C4, as stated, fails twice. After the example posting the stored row of entry
  7 is \<^verbatim>\<open>posted\<close>; posting the returned entry again raises "User cannot post this
  entry", never "already posted". And the guard reads the status of the object it is
  called on: the object that approval returned, still \<^verbatim>\<open>approved\<close>, names the same
  row, and posting it after the first post succeeds and moves Cash to 200.00, two
  applications of the lines.
\<close>

theorem post_again_counterexample:
  "fst example_posting = Inr ()
   \<and> map JournalEntry.pk (entries (snd (snd example_posting))) = [7]
   \<and> map status (entries (snd (snd example_posting))) = [''posted'']
   \<and> fst (post (example_env 10) (snd (snd example_posting)) (fst (snd example_posting))
            (example_user 3 ''accountant''))
       = Inl (ValidationError ''User cannot post this entry'')
   \<and> fst (post (example_env 10) (snd (snd example_posting)) (fst (snd example_posting))
            (example_user 3 ''accountant''))
       \<noteq> Inl (ValidationError ''already posted'')
   \<and> JournalEntry.pk (fst (snd example_approval)) = 7
   \<and> status (fst (snd example_approval)) = ''approved''
   \<and> fst (post (example_env 10) (snd (snd example_posting)) (fst (snd example_approval))
            (example_user 3 ''accountant'')) = Inr ()
   \<and> map_option current_balance (accounts (example_ledger ''open'') 101) = Some 0
   \<and> map_option current_balance
        (accounts (snd (snd (post (example_env 10) (snd (snd example_posting))
            (fst (snd example_approval)) (example_user 3 ''accountant'')))) 101) = Some 20000"
proof -
  have l: "lines_all (snd (snd example_posting)) (fst (snd example_approval))
     = [\<lparr>journal_entry = 7, JournalEntryLine.account = 101, line_number = 1,
       debit_amount = 10000, credit_amount = 0\<rparr>,
      \<lparr>journal_entry = 7, JournalEntryLine.account = 401, line_number = 2,
       debit_amount = 0, credit_amount = 10000\<rparr>]"
    unfolding example_posting_eq example_approval_eq snd_conv fst_conv
    by (simp add: lines_all_def example_lines_def example_entry_def)
  have stale: "post (example_env 10) (snd (snd example_posting)) (fst (snd example_approval))
            (example_user 3 ''accountant'')
     = (Inr (),
        (example_entry 7 ''posted'')
          \<lparr>approved_by := Some 2, approved_at := Some 8, posted_by := Some 3, posted_at := Some 10\<rparr>,
        \<lparr>accounts = [101 \<mapsto> example_cash\<lparr>current_balance := 20000\<rparr>,
                     401 \<mapsto> example_revenue\<lparr>current_balance := - 20000\<rparr>],
         lines = example_lines,
         entries = [(example_entry 7 ''posted'')
          \<lparr>approved_by := Some 2, approved_at := Some 8, posted_by := Some 3, posted_at := Some 10\<rparr>],
         periods = periods (example_ledger ''open'')\<rparr>)"
    unfolding post_def l
    unfolding example_posting_eq example_approval_eq snd_conv fst_conv
    by (simp add: can_post_def save_def Let_def ChartOfAccount_save_def decimal_fits_def
        entry_number_taken_def example_cash_def example_revenue_def
        example_entry_def example_ledger_def example_user_def example_env_def fun_upd_twist)
  have again: "post (example_env 10) (snd (snd example_posting)) (fst (snd example_posting))
            (example_user 3 ''accountant'')
     = (Inl (ValidationError ''User cannot post this entry''),
        fst (snd example_posting), snd (snd example_posting))"
    by (rule post_rejected) (simp add: example_posting_eq can_post_def example_entry_def)
  show ?thesis
    unfolding stale again
    by (simp add: example_posting_eq example_approval_eq example_entry_def example_cash_def
          example_ledger_def)
qed

text \<open>
  Claim C4, amended. When the status of the entry object is not \<^verbatim>\<open>approved\<close>,
  \<^verbatim>\<open>post\<close> raises the validation error "User cannot post this entry" and leaves the
  object and the database unchanged. After a successful \<^verbatim>\<open>post\<close>, the returned
  object and the entry's stored row are the same \<^verbatim>\<open>posted\<close> entry; a second
  \<^verbatim>\<open>post\<close> of it, by any user at any time, raises that error and changes nothing,
  so that every account's balance is its first balance plus the signed sum of the
  entry's lines on it, once.
\<close>

theorem post_unapproved_rejected:
  "(status self \<noteq> ''approved'' \<longrightarrow>
      post e db self user = (Inl (ValidationError ''User cannot post this entry''), self, db))
   \<and> (post e db self user = (Inr (), self', db') \<longrightarrow>
        status self' = ''posted''
      \<and> find (\<lambda>row. JournalEntry.pk row = JournalEntry.pk self) (entries db') = Some self'
      \<and> post e2 db' self' user2
          = (Inl (ValidationError ''User cannot post this entry''), self', db')
      \<and> accounts (snd (snd (post e2 db' self' user2)))
          = (\<lambda>a. map_option
               (\<lambda>acct. acct\<lparr>current_balance :=
                  current_balance acct + signed_delta_sum (lines_all db self) a\<rparr>)
               (accounts db a)))"
proof (intro conjI impI)
  assume "status self \<noteq> ''approved''"
  then have "\<not> can_post self user" by (simp add: can_post_iff)
  then show "post e db self user = (Inl (ValidationError ''User cannot post this entry''), self, db)"
    by (rule post_rejected)
next
  assume p: "post e db self user = (Inr (), self', db')"
  note f = save_Inr_facts[OF post_Inr(3)[OF p]]
  show st: "status self' = ''posted''" using p by (rule post_Inr_posted)
  show "find (\<lambda>row. JournalEntry.pk row = JournalEntry.pk self) (entries db') = Some self'"
    using f(10) by simp
  from st have "\<not> can_post self' user2" by (simp add: can_post_iff)
  then show again: "post e2 db' self' user2
        = (Inl (ValidationError ''User cannot post this entry''), self', db')"
    by (rule post_rejected)
  show "accounts (snd (snd (post e2 db' self' user2)))
          = (\<lambda>a. map_option
               (\<lambda>acct. acct\<lparr>current_balance :=
                  current_balance acct + signed_delta_sum (lines_all db self) a\<rparr>)
               (accounts db a))"
    unfolding again using f(7) by simp
qed

text \<open>
  The amended C4 at the example: posting a \<^verbatim>\<open>posted\<close> entry is refused; after
  the example posting the stored row is the returned entry, a second post of it by an
  admin is refused, and Cash stays at 100.00, up from 0.00.
\<close>

theorem post_unapproved_rejected_witness:
  "status (example_entry 7 ''posted'') \<noteq> ''approved''
   \<and> post (example_env 9) (example_ledger ''open'') (example_entry 7 ''posted'')
        (example_user 3 ''accountant'')
      = (Inl (ValidationError ''User cannot post this entry''),
         example_entry 7 ''posted'', example_ledger ''open'')
   \<and> fst example_posting = Inr ()
   \<and> status (fst (snd example_posting)) = ''posted''
   \<and> find (\<lambda>row. JournalEntry.pk row = 7) (entries (snd (snd example_posting)))
       = Some (fst (snd example_posting))
   \<and> post (example_env 10) (snd (snd example_posting)) (fst (snd example_posting))
        (example_user 1 ''admin'')
      = (Inl (ValidationError ''User cannot post this entry''),
         fst (snd example_posting), snd (snd example_posting))
   \<and> map_option current_balance
        (accounts (snd (snd (post (example_env 10) (snd (snd example_posting))
                               (fst (snd example_posting)) (example_user 1 ''admin'')))) 101)
      = Some 10000
   \<and> map_option current_balance (accounts (example_ledger ''open'') 101) = Some 0"
proof -
  have 1: "status (example_entry 7 ''posted'') \<noteq> ''approved''"
    by (simp add: example_entry_def)
  have 2: "fst example_posting = Inr ()"
    by (simp add: example_posting_eq)
  then have 3: "post (example_env 9) (snd (snd example_approval)) (fst (snd example_approval))
       (example_user 3 ''accountant'')
      = (Inr (), fst (snd example_posting), snd (snd example_posting))"
    unfolding example_posting_def by (simp add: prod_eq_iff)
  note T = post_unapproved_rejected[of "fst (snd example_approval)" "example_env 9"
        "snd (snd example_approval)" "example_user 3 ''accountant''"
        "fst (snd example_posting)" "snd (snd example_posting)"
        "example_env 10" "example_user 1 ''admin''"]
  have pk: "JournalEntry.pk (fst (snd example_approval)) = 7"
    by (simp add: example_approval_eq example_entry_def)
  have l: "lines_all (snd (snd example_approval)) (fst (snd example_approval))
     = [\<lparr>journal_entry = 7, JournalEntryLine.account = 101, line_number = 1,
       debit_amount = 10000, credit_amount = 0\<rparr>,
      \<lparr>journal_entry = 7, JournalEntryLine.account = 401, line_number = 2,
       debit_amount = 0, credit_amount = 10000\<rparr>]"
    unfolding example_approval_eq snd_conv fst_conv
    by (simp add: lines_all_def example_ledger_def example_lines_def example_entry_def)
  from T 3 have r: "status (fst (snd example_posting)) = ''posted''"
    "find (\<lambda>row. JournalEntry.pk row = JournalEntry.pk (fst (snd example_approval)))
        (entries (snd (snd example_posting))) = Some (fst (snd example_posting))"
    "post (example_env 10) (snd (snd example_posting)) (fst (snd example_posting))
        (example_user 1 ''admin'')
      = (Inl (ValidationError ''User cannot post this entry''),
         fst (snd example_posting), snd (snd example_posting))"
    "accounts (snd (snd (post (example_env 10) (snd (snd example_posting))
                               (fst (snd example_posting)) (example_user 1 ''admin''))))
      = (\<lambda>a. map_option
             (\<lambda>acct. acct\<lparr>current_balance := current_balance acct
                + signed_delta_sum
                    (lines_all (snd (snd example_approval)) (fst (snd example_approval))) a\<rparr>)
             (accounts (snd (snd example_approval)) a))"
    by blast+
  have 7: "map_option current_balance
        (accounts (snd (snd (post (example_env 10) (snd (snd example_posting))
                               (fst (snd example_posting)) (example_user 1 ''admin'')))) 101)
      = Some 10000"
    unfolding r(4) l by (simp add: example_approval_eq example_ledger_def example_cash_def)
  have 8: "map_option current_balance (accounts (example_ledger ''open'') 101) = Some 0"
    by (simp add: example_ledger_def example_cash_def)
  have 10: "post (example_env 9) (example_ledger ''open'') (example_entry 7 ''posted'')
        (example_user 3 ''accountant'')
      = (Inl (ValidationError ''User cannot post this entry''),
         example_entry 7 ''posted'', example_ledger ''open'')"
    using 1 post_unapproved_rejected[of "example_entry 7 ''posted''" "example_env 9"
        "example_ledger ''open''" "example_user 3 ''accountant''"]
    by blast
  from r(2) have 5: "find (\<lambda>row. JournalEntry.pk row = 7) (entries (snd (snd example_posting)))
       = Some (fst (snd example_posting))"
    unfolding pk .
  from 1 10 2 r(1) 5 r(3) 7 8 show ?thesis by (intro conjI)
qed

section \<open>Reversal\<close>

text \<open>
  Claim C5 at the posted example entry. \<^verbatim>\<open>reverse\<close> returns without an error
  and leaves the entry and the database as they were: the entries table still holds
  entry 7 alone, so no reversing entry exists, and Cash stays at 100.00.
\<close>

theorem reverse_posted_creates_nothing:
  "fst example_posting = Inr ()
   \<and> status (fst (snd example_posting)) = ''posted''
   \<and> reverse (snd (snd example_posting)) (fst (snd example_posting))
        (example_user 3 ''accountant'')
      = (Inr (), fst (snd example_posting), snd (snd example_posting))
   \<and> map JournalEntry.pk (entries (snd (snd example_posting))) = [7]
   \<and> map_option current_balance (accounts (snd (snd example_posting)) 101) = Some 10000"
  by (simp add: example_posting_eq reverse_def example_entry_def example_cash_def)

section \<open>The fiscal period of an entry\<close>

lemma fiscal_period_validators_accept_iff:
  "run_validators fiscal_period_validators p = [] \<longleftrightarrow> 12 \<le> p"
  by (simp add: fiscal_period_validators_def)

text \<open>
  Claim C6 at fiscal period 6. \<^verbatim>\<open>clean\<close> accepts the entry, but the validators of
  the \<^verbatim>\<open>fiscal_period\<close> field reject 6: the second one is
  \<^verbatim>\<open>MinValueValidator(12)\<close>, which refuses every value below 12.
\<close>

theorem fiscal_period_six_rejected:
  "JournalEntry_clean ((example_entry 7 ''draft'')\<lparr>fiscal_period := 6\<rparr>) = Inr ()
   \<and> run_validators fiscal_period_validators 6 =
       [ValidationError ''Ensure this value is greater than or equal to %(limit_value)s.'']
   \<and> fiscal_period_errors ((example_entry 7 ''draft'')\<lparr>fiscal_period := 6\<rparr>) \<noteq> []"
  by (simp add: JournalEntry_clean_def fiscal_period_errors_def fiscal_period_validators_def
        example_entry_def)

section \<open>Validation of a line\<close>

text \<open>
  Claim C7. \<^verbatim>\<open>JournalEntryLine.clean\<close> succeeds exactly when both amounts are
  non-negative and exactly one of them is strictly positive; otherwise it raises a
  validation error.
\<close>

theorem line_clean_accepts_iff:
  "(JournalEntryLine_clean l = Inr () \<longleftrightarrow>
      0 \<le> debit_amount l \<and> 0 \<le> credit_amount l
      \<and> ((0 < debit_amount l) \<noteq> (0 < credit_amount l)))
   \<and> (JournalEntryLine_clean l \<noteq> Inr () \<longrightarrow>
        (\<exists>msg. JournalEntryLine_clean l = Inl (ValidationError msg)))"
  by (auto simp: JournalEntryLine_clean_def)

text \<open>
  C7 at a line with debit 100.00 and credit 0.00 (accepted) and at a line with debit
  and credit both 100.00 (rejected).
\<close>

theorem line_clean_accepts_iff_witness:
  "JournalEntryLine_clean
     \<lparr>journal_entry = 7, JournalEntryLine.account = 101, line_number = 1,
      debit_amount = 10000, credit_amount = 0\<rparr> = Inr ()
   \<and> JournalEntryLine_clean
     \<lparr>journal_entry = 7, JournalEntryLine.account = 101, line_number = 1,
      debit_amount = 10000, credit_amount = 10000\<rparr> \<noteq> Inr ()
   \<and> (\<exists>msg. JournalEntryLine_clean
     \<lparr>journal_entry = 7, JournalEntryLine.account = 101, line_number = 1,
      debit_amount = 10000, credit_amount = 10000\<rparr> = Inl (ValidationError msg))"
  using line_clean_accepts_iff[of "\<lparr>journal_entry = 7, JournalEntryLine.account = 101, line_number = 1,
      debit_amount = 10000, credit_amount = 0\<rparr>"]
    line_clean_accepts_iff[of "\<lparr>journal_entry = 7, JournalEntryLine.account = 101, line_number = 1,
      debit_amount = 10000, credit_amount = 10000\<rparr>"]
  by simp

section \<open>Trial balance lines\<close>

text \<open>
  Claim C8, as stated, fails. The closing columns are stored on their own and nothing
  computes them: the example line has opening balance 100.00, period debit 50.00 and
  period credit 0.00, and its closing balance is 0.00, which is neither
  opening + period debit - period credit nor opening + period credit - period debit.
\<close>

theorem closing_not_derived_counterexample:
  "get_opening_balance example_trial_balance_line = 10000
   \<and> period_debit example_trial_balance_line = 5000
   \<and> period_credit example_trial_balance_line = 0
   \<and> get_closing_balance example_trial_balance_line = 0
   \<and> get_closing_balance example_trial_balance_line \<noteq>
       get_opening_balance example_trial_balance_line
       + period_debit example_trial_balance_line - period_credit example_trial_balance_line
   \<and> get_closing_balance example_trial_balance_line \<noteq>
       get_opening_balance example_trial_balance_line
       + period_credit example_trial_balance_line - period_debit example_trial_balance_line"
  by (simp add: example_trial_balance_line_def get_opening_balance_def get_closing_balance_def)

text \<open>
  Claim C8, amended. \<^verbatim>\<open>get_closing_balance\<close> reads the stored closing columns
  only: it is \<^verbatim>\<open>closing_debit\<close> when that is strictly positive and the negated
  \<^verbatim>\<open>closing_credit\<close> otherwise, whatever the opening and period columns hold.
\<close>

theorem closing_balance_reads_stored_fields:
  "get_closing_balance
     (l\<lparr>opening_debit := od, opening_credit := oc, period_debit := pd, period_credit := pc\<rparr>)
     = get_closing_balance l
   \<and> (0 < closing_debit l \<longrightarrow> get_closing_balance l = closing_debit l)
   \<and> (closing_debit l \<le> 0 \<longrightarrow> get_closing_balance l = - closing_credit l)"
  by (simp add: get_closing_balance_def)

text \<open>
  The amended C8 at the example line with a closing debit of 150.00, and with a
  closing credit of 3.00.
\<close>

theorem closing_balance_reads_stored_fields_witness:
  "get_closing_balance
     (example_trial_balance_line\<lparr>closing_debit := 15000\<rparr>
        \<lparr>opening_debit := 0, opening_credit := 0, period_debit := 0, period_credit := 0\<rparr>)
     = 15000
   \<and> get_closing_balance (example_trial_balance_line\<lparr>closing_credit := 300\<rparr>) = - 300"
  using closing_balance_reads_stored_fields[of 0 0 0 0 "example_trial_balance_line\<lparr>closing_debit := 15000\<rparr>"]
    closing_balance_reads_stored_fields[of 0 0 0 0 "example_trial_balance_line\<lparr>closing_credit := 300\<rparr>"]
  by (simp add: example_trial_balance_line_def)

section \<open>The Cash and Revenue example\<close>

text \<open>
  Claim C9, as stated, fails. After the example entry is approved by a manager and
  posted by an accountant, Revenue's \<^verbatim>\<open>current_balance\<close> has gone from 0.00 to
  -100.00, not to 100.00.
\<close>

theorem example_revenue_balance_counterexample:
  "fst example_approval = Inr ()
   \<and> fst example_posting = Inr ()
   \<and> status (fst (snd example_posting)) = ''posted''
   \<and> map_option current_balance (accounts (example_ledger ''open'') 401) = Some 0
   \<and> map_option current_balance (accounts (snd (snd example_posting)) 401) = Some (- 10000)
   \<and> map_option current_balance (accounts (snd (snd example_posting)) 401) \<noteq> Some (0 + 10000)"
  by (simp add: example_posting_eq example_approval_eq example_entry_def example_revenue_def
        example_ledger_def)

text \<open>
  Claim C9, amended. Take a pending entry with exactly the two lines Cash debit 100.00
  and Revenue credit 100.00, in a database that can take the writes: the two opening
  balances, the two new balances and the entry's totals fit their columns, and the
  entry has a number that no other row has. Then approval by a manager and posting by
  an accountant both succeed; Cash's \<^verbatim>\<open>current_balance\<close> increases by 100.00,
  Revenue's decreases by 100.00, and the entry's status is \<^verbatim>\<open>posted\<close>. When Revenue
  is credit-normal, its \<^verbatim>\<open>get_balance_display\<close> increases by 100.00.
\<close>

theorem cash_revenue_example:
  assumes "lines_all db self =
       [\<lparr>journal_entry = JournalEntry.pk self, JournalEntryLine.account = cash_id,
         line_number = 1, debit_amount = 10000, credit_amount = 0\<rparr>,
        \<lparr>journal_entry = JournalEntry.pk self, JournalEntryLine.account = revenue_id,
         line_number = 2, debit_amount = 0, credit_amount = 10000\<rparr>]"
    and "cash_id \<noteq> revenue_id"
    and "accounts db cash_id = Some c" and "accounts db revenue_id = Some r"
    and "status self = ''pending''"
    and "role manager = ''manager''" and "role accountant = ''accountant''"
    and "decimal_fits (opening_balance c)" and "decimal_fits (current_balance c + 10000)"
    and "decimal_fits (opening_balance r)" and "decimal_fits (current_balance r - 10000)"
    and "decimal_fits (total_debits self)" and "decimal_fits (total_credits self)"
    and "entry_number self \<noteq> []" and "\<not> entry_number_taken db self"
  shows "\<exists>self1 db1 self2 db2.
           approve e1 db self manager = (Inr (), self1, db1)
         \<and> post e2 db1 self1 accountant = (Inr (), self2, db2)
         \<and> status self2 = ''posted''
         \<and> accounts db2 cash_id = Some (c\<lparr>current_balance := current_balance c + 10000\<rparr>)
         \<and> accounts db2 revenue_id = Some (r\<lparr>current_balance := current_balance r - 10000\<rparr>)
         \<and> (ChartOfAccount.normal_balance r = ''credit'' \<longrightarrow>
              get_balance_display (r\<lparr>current_balance := current_balance r - 10000\<rparr>)
                = get_balance_display r + 10000)"
proof -
  define self1 where "self1 = self\<lparr>status := ''approved'',
      approved_by := Some (User.pk manager), approved_at := Some (now e1)\<rparr>"
  define db1 where "db1 = db\<lparr>entries := write_row self1 (entries db)\<rparr>"
  have ca: "can_approve self manager" using assms(5,6) by (simp add: can_approve_def)
  have nt1: "\<not> entry_number_taken db self1"
    using assms(15) by (simp add: entry_number_taken_def self1_def)
  have a: "approve e1 db self manager = (Inr (), self1, db1)"
    using ca assms(12,13,14) nt1
    by (simp add: approve_def save_def Let_def self1_def[symmetric] db1_def)
      (simp add: self1_def)
  have l1: "lines_all db1 self1 = lines_all db self"
    by (simp add: lines_all_def db1_def self1_def)
  have cp: "can_post self1 accountant"
    using assms(7) by (simp add: can_post_iff self1_def)
  define c' where "c' = c\<lparr>current_balance := current_balance c + 10000\<rparr>"
  define r' where "r' = r\<lparr>current_balance := current_balance r - 10000\<rparr>"
  define accts where "accts = (accounts db)(cash_id \<mapsto> c', revenue_id \<mapsto> r')"
  have al: "apply_lines (lines_all db1 self1) (accounts db1) = Inr accts"
    unfolding l1 assms(1)
    using assms(2,3,4,8,9,10,11)
    by (simp add: db1_def ChartOfAccount_save_def accts_def c'_def r'_def)
  define self2 where "self2 = self1\<lparr>status := ''posted'',
      posted_by := Some (User.pk accountant), posted_at := Some (now e2)\<rparr>"
  define db2 where "db2 = db1\<lparr>accounts := accts, entries := write_row self2 (entries db1)\<rparr>"
  have nt2: "\<not> entry_number_taken (db1\<lparr>accounts := accts\<rparr>) self2"
  proof -
    have "\<not> entry_number_taken db1 self"
      by (rule entry_number_taken_write_row[OF assms(15), of self1])
         (simp_all add: self1_def db1_def)
    then show ?thesis by (simp add: entry_number_taken_def self2_def self1_def)
  qed
  have sv: "save e2 (db1\<lparr>accounts := accts\<rparr>) self2 = (Inr (), self2, db2)"
    using assms(12,13,14) nt2
    by (simp add: save_def Let_def db2_def) (simp add: self2_def self1_def)
  have p: "post e2 db1 self1 accountant = (Inr (), self2, db2)"
    using cp al sv by (simp add: post_def Let_def self2_def[symmetric])
  have st2: "status self2 = ''posted''" by (simp add: self2_def)
  have b1: "accounts db2 cash_id = Some (c\<lparr>current_balance := current_balance c + 10000\<rparr>)"
    using assms(2) by (simp add: db2_def accts_def c'_def)
  have b2: "accounts db2 revenue_id = Some (r\<lparr>current_balance := current_balance r - 10000\<rparr>)"
    by (simp add: db2_def accts_def r'_def)
  have d: "ChartOfAccount.normal_balance r = ''credit'' \<longrightarrow>
              get_balance_display (r\<lparr>current_balance := current_balance r - 10000\<rparr>)
                = get_balance_display r + 10000"
    by (simp add: get_balance_display_def)
  from a p st2 b1 b2 d show ?thesis by blast
qed

text \<open>
  The amended C9 at the example ledger.
\<close>

theorem cash_revenue_example_witness:
  "lines_all (example_ledger ''open'') (example_entry 7 ''pending'') =
       [\<lparr>journal_entry = 7, JournalEntryLine.account = 101,
         line_number = 1, debit_amount = 10000, credit_amount = 0\<rparr>,
        \<lparr>journal_entry = 7, JournalEntryLine.account = 401,
         line_number = 2, debit_amount = 0, credit_amount = 10000\<rparr>]
   \<and> fst example_approval = Inr ()
   \<and> fst example_posting = Inr ()
   \<and> status (fst (snd example_posting)) = ''posted''
   \<and> accounts (snd (snd example_posting)) 101 = Some (example_cash\<lparr>current_balance := 10000\<rparr>)
   \<and> accounts (snd (snd example_posting)) 401 = Some (example_revenue\<lparr>current_balance := - 10000\<rparr>)
   \<and> get_balance_display (example_revenue\<lparr>current_balance := - 10000\<rparr>)
       = get_balance_display example_revenue + 10000"
proof -
  have h1: "lines_all (example_ledger ''open'') (example_entry 7 ''pending'') =
       [\<lparr>journal_entry = JournalEntry.pk (example_entry 7 ''pending''),
         JournalEntryLine.account = 101,
         line_number = 1, debit_amount = 10000, credit_amount = 0\<rparr>,
        \<lparr>journal_entry = JournalEntry.pk (example_entry 7 ''pending''),
         JournalEntryLine.account = 401,
         line_number = 2, debit_amount = 0, credit_amount = 10000\<rparr>]"
    unfolding example_lines_all by (simp add: example_entry_def)
  have h2: "(101::nat) \<noteq> 401" by simp
  have h3: "accounts (example_ledger ''open'') 101 = Some example_cash"
    by (simp add: example_ledger_def)
  have h4: "accounts (example_ledger ''open'') 401 = Some example_revenue"
    by (simp add: example_ledger_def)
  have h5: "status (example_entry 7 ''pending'') = ''pending''"
    by (simp add: example_entry_def)
  have h6: "role (example_user 2 ''manager'') = ''manager''"
    by (simp add: example_user_def)
  have h7: "role (example_user 3 ''accountant'') = ''accountant''"
    by (simp add: example_user_def)
  have h8: "decimal_fits (opening_balance example_cash)"
    "decimal_fits (current_balance example_cash + 10000)"
    "decimal_fits (opening_balance example_revenue)"
    "decimal_fits (current_balance example_revenue - 10000)"
    by (simp_all add: example_cash_def example_revenue_def decimal_fits_def)
  have h9: "decimal_fits (total_debits (example_entry 7 ''pending''))"
    "decimal_fits (total_credits (example_entry 7 ''pending''))"
    "entry_number (example_entry 7 ''pending'') \<noteq> []"
    by (simp_all add: example_entry_def decimal_fits_def)
  have h10: "\<not> entry_number_taken (example_ledger ''open'') (example_entry 7 ''pending'')"
    by (simp add: entry_number_taken_def example_ledger_def)
  have c: "current_balance example_cash = 0" "current_balance example_revenue = 0"
    "ChartOfAccount.normal_balance example_revenue = ''credit''"
    by (simp_all add: example_cash_def example_revenue_def)
  from cash_revenue_example[OF h1 h2 h3 h4 h5 h6 h7 h8 h9 h10, of "example_env 8" "example_env 9"]
  obtain self1 db1 self2 db2 where
    r: "approve (example_env 8) (example_ledger ''open'') (example_entry 7 ''pending'')
          (example_user 2 ''manager'') = (Inr (), self1, db1)"
       "post (example_env 9) db1 self1 (example_user 3 ''accountant'') = (Inr (), self2, db2)"
       "status self2 = ''posted''"
       "accounts db2 101 = Some (example_cash\<lparr>current_balance := current_balance example_cash + 10000\<rparr>)"
       "accounts db2 401 = Some (example_revenue\<lparr>current_balance := current_balance example_revenue - 10000\<rparr>)"
       "ChartOfAccount.normal_balance example_revenue = ''credit'' \<longrightarrow>
          get_balance_display (example_revenue\<lparr>current_balance := current_balance example_revenue - 10000\<rparr>)
            = get_balance_display example_revenue + 10000"
    by blast
  have a: "example_approval = (Inr (), self1, db1)"
    using r(1) by (simp add: example_approval_def)
  have p: "example_posting = (Inr (), self2, db2)"
    using r(2) by (simp add: example_posting_def a)
  show ?thesis
    using r(3-6) h1 c by (simp add: a p example_lines_all)
qed

section \<open>Validation of an account\<close>

text \<open>
  Claim C10. \<^verbatim>\<open>ChartOfAccount.clean\<close> rejects a credit-normal account whose
  opening balance is strictly negative and a debit-normal account whose opening
  balance is strictly positive; an account that passes has an opening balance of at
  most zero when debit-normal and at least zero when credit-normal.
\<close>

theorem account_clean_opening_sign:
  "(ChartOfAccount.normal_balance self = ''credit'' \<and> opening_balance self < 0 \<longrightarrow>
      (\<exists>msg. ChartOfAccount_clean self = Inl (ValidationError msg)))
   \<and> (ChartOfAccount.normal_balance self = ''debit'' \<and> opening_balance self > 0 \<longrightarrow>
      (\<exists>msg. ChartOfAccount_clean self = Inl (ValidationError msg)))
   \<and> (ChartOfAccount_clean self = Inr () \<longrightarrow>
        (ChartOfAccount.normal_balance self = ''debit'' \<longrightarrow> opening_balance self \<le> 0)
      \<and> (ChartOfAccount.normal_balance self = ''credit'' \<longrightarrow> opening_balance self \<ge> 0))"
  by (auto simp: ChartOfAccount_clean_def split: if_splits)

text \<open>
  C10 at Revenue with opening balance -5.00 and Cash with 5.00 (rejected), and at Cash
  with -5.00 and Revenue with 5.00 (accepted).
\<close>

theorem account_clean_opening_sign_witness:
  "(\<exists>msg. ChartOfAccount_clean (example_revenue\<lparr>opening_balance := - 500\<rparr>) = Inl (ValidationError msg))
   \<and> (\<exists>msg. ChartOfAccount_clean (example_cash\<lparr>opening_balance := 500\<rparr>) = Inl (ValidationError msg))
   \<and> ChartOfAccount_clean (example_cash\<lparr>opening_balance := - 500\<rparr>) = Inr ()
   \<and> opening_balance (example_cash\<lparr>opening_balance := - 500\<rparr>) \<le> 0
   \<and> ChartOfAccount_clean (example_revenue\<lparr>opening_balance := 500\<rparr>) = Inr ()
   \<and> opening_balance (example_revenue\<lparr>opening_balance := 500\<rparr>) \<ge> 0"
proof -
  have 1: "\<exists>msg. ChartOfAccount_clean (example_revenue\<lparr>opening_balance := - 500\<rparr>) = Inl (ValidationError msg)"
    using account_clean_opening_sign[of "example_revenue\<lparr>opening_balance := - 500\<rparr>"]
    by (simp add: example_revenue_def)
  have 2: "\<exists>msg. ChartOfAccount_clean (example_cash\<lparr>opening_balance := 500\<rparr>) = Inl (ValidationError msg)"
    using account_clean_opening_sign[of "example_cash\<lparr>opening_balance := 500\<rparr>"]
    by (simp add: example_cash_def)
  have 3: "ChartOfAccount_clean (example_cash\<lparr>opening_balance := - 500\<rparr>) = Inr ()"
    by (simp add: example_cash_def ChartOfAccount_clean_def)
  have 4: "ChartOfAccount_clean (example_revenue\<lparr>opening_balance := 500\<rparr>) = Inr ()"
    by (simp add: example_revenue_def ChartOfAccount_clean_def)
  have 5: "opening_balance (example_cash\<lparr>opening_balance := - 500\<rparr>) \<le> 0"
    using account_clean_opening_sign[of "example_cash\<lparr>opening_balance := - 500\<rparr>"] 3
    by (simp add: example_cash_def)
  have 6: "opening_balance (example_revenue\<lparr>opening_balance := 500\<rparr>) \<ge> 0"
    using account_clean_opening_sign[of "example_revenue\<lparr>opening_balance := 500\<rparr>"] 4
    by (simp add: example_revenue_def)
  from 1 2 3 4 5 6 show ?thesis by (intro conjI)
qed

end
